theory Spec2Isabelle
  imports Complex_Main "HOL-Library.Word" "HOL-Library.Sublist"
begin

section \<open>JavaScript strings\<close>

text \<open>
  A JavaScript string is a sequence of UTF-16 code units. The model is \<open>string\<close>;
  a \<open>char\<close> is read as a code unit below 256 (Basic Latin and Latin-1 Supplement),
  which covers the playlist syntax itself. The string methods the sources call are
  written out on lists of characters.
\<close>

definition dquote :: char where
  "dquote = CHR 0x22"

definition newline :: char where
  "newline = CHR 0x0A"

text \<open>White space and line terminators of \<open>String.prototype.trim\<close> below 256.\<close>

definition is_space :: "char \<Rightarrow> bool" where
  "is_space c = (c \<in> set [CHR 0x09, CHR 0x0A, CHR 0x0B, CHR 0x0C, CHR 0x0D, CHR 0x20, CHR 0xA0])"

text \<open>The characters the regular-expression dot does not match (below 256).\<close>

definition line_terminator :: "char \<Rightarrow> bool" where
  "line_terminator c = (c \<in> set [CHR 0x0A, CHR 0x0D])"

definition trim :: "string \<Rightarrow> string" where
  "trim s = rev (dropWhile is_space (rev (dropWhile is_space s)))"

text \<open>
  \<open>toLowerCase\<close> on code units below 256: \<open>A\<close>..\<open>Z\<close> and the Latin-1
  capitals \<open>0xC0\<close>..\<open>0xDE\<close> (without the multiplication sign \<open>0xD7\<close>)
  move up by 32, everything else stays.
\<close>

definition lower_char :: "char \<Rightarrow> char" where
  "lower_char c =
     (let n = (of_char c :: nat)
      in if (65 \<le> n \<and> n \<le> 90) \<or> (192 \<le> n \<and> n \<le> 222 \<and> n \<noteq> 215)
         then char_of (n + 32) else c)"

definition toLowerCase :: "string \<Rightarrow> string" where
  "toLowerCase s = map lower_char s"

definition startsWith :: "string \<Rightarrow> string \<Rightarrow> bool" where
  "startsWith s t = (take (length t) s = t)"

fun includes_js :: "string \<Rightarrow> string \<Rightarrow> bool" where
  "includes_js [] t = (t = [])"
| "includes_js (c # cs) t = (startsWith (c # cs) t \<or> includes_js cs t)"

text \<open>\<open>content.split('\n')\<close>: the pieces between line feeds, at least one piece.\<close>

fun split_lines :: "string \<Rightarrow> string list" where
  "split_lines [] = [[]]"
| "split_lines (c # cs) =
     (if c = newline then [] # split_lines cs
      else (case split_lines cs of [] \<Rightarrow> [[c]] | l # ls \<Rightarrow> (c # l) # ls))"

section \<open>Playlist parser (\<open>M3UParser\<close>)\<close>

record channel =
  name :: string
  logo :: string
  group_ch :: string
  language :: string
  country :: string
  tvgId :: string
  tvgName :: string
  url :: string
  id_ch :: string

subsection \<open>\<open>parseExtInf\<close>\<close>

definition is_key_char :: "char \<Rightarrow> bool" where
  "is_key_char c = (c \<in> set ''abcdefghijklmnopqrstuvwxyzABCDEFGHIJKLMNOPQRSTUVWXYZ-'')"

text \<open>
  One anchored match of \<open>/([a-zA-Z-]+)="([^"]*)"/\<close> at the head of the text: the
  longest run of key characters, \<open>="\<close>, the longest run without a double quote, and
  the closing quote. Both runs are greedy and a shorter run never lets the rest match,
  so the longest one decides. The result is key, value and the text after the match.
\<close>

definition attr_match_at :: "string \<Rightarrow> (string \<times> string \<times> string) option" where
  "attr_match_at s =
     (let key = takeWhile is_key_char s; rest = dropWhile is_key_char s
      in if key \<noteq> [] \<and> startsWith rest [CHR ''='', dquote]
         then (let v = takeWhile (\<lambda>c. c \<noteq> dquote) (drop 2 rest);
                   rest2 = dropWhile (\<lambda>c. c \<noteq> dquote) (drop 2 rest)
               in (case rest2 of [] \<Rightarrow> None | q # after \<Rightarrow> Some (key, v, after)))
         else None)"

lemma attr_match_at_shorter:
  "attr_match_at s = Some (k, v, r) \<Longrightarrow> length r < length s"
proof -
  assume a: "attr_match_at s = Some (k, v, r)"
  define rest where "rest = dropWhile is_key_char s"
  define rest2 where "rest2 = dropWhile (\<lambda>c. c \<noteq> dquote) (drop 2 rest)"
  from a have "\<exists>q. rest2 = q # r"
    by (auto simp: attr_match_at_def Let_def rest_def rest2_def split: if_splits list.splits)
  then have "length r < length rest2" by auto
  also have "length rest2 \<le> length (drop 2 rest)"
    unfolding rest2_def by (rule length_dropWhile_le)
  also have "\<dots> \<le> length rest" by simp
  also have "\<dots> \<le> length s"
    unfolding rest_def by (rule length_dropWhile_le)
  finally show ?thesis .
qed

text \<open>
  The \<open>while ((match = attrRegex.exec(line)) !== null)\<close> loop: the leftmost match
  from the current position, then on from the end of that match.
\<close>

function attr_matches :: "string \<Rightarrow> (string \<times> string) list" where
  "attr_matches [] = []"
| "attr_matches (c # cs) =
     (case attr_match_at (c # cs) of
        Some (k, v, r) \<Rightarrow> (k, v) # attr_matches r
      | None \<Rightarrow> attr_matches cs)"
  by pat_completeness auto
termination
  by (relation "measure length") (auto dest: attr_match_at_shorter)

definition default_channel :: channel where
  "default_channel =
     \<lparr>name = ''Unknown Channel'', logo = '''', group_ch = ''Uncategorized'', language = '''',
      country = '''', tvgId = '''', tvgName = '''', url = '''', id_ch = ''''\<rparr>"

text \<open>The \<open>switch (key.toLowerCase())\<close> of the attribute loop.\<close>

definition set_attr :: "channel \<Rightarrow> string \<times> string \<Rightarrow> channel" where
  "set_attr ch kv =
     (let key = toLowerCase (fst kv); v = snd kv
      in if key = ''tvg-logo'' then ch\<lparr>logo := v\<rparr>
         else if key = ''tvg-name'' then ch\<lparr>tvgName := v\<rparr>
         else if key = ''tvg-id'' then ch\<lparr>tvgId := v\<rparr>
         else if key = ''group-title'' then ch\<lparr>group_ch := (if v = [] then ''Uncategorized'' else v)\<rparr>
         else if key = ''tvg-language'' then ch\<lparr>language := v\<rparr>
         else if key = ''tvg-country'' then ch\<lparr>country := v\<rparr>
         else ch)"

text \<open>
  \<open>line.match(/,(.+)$/)\<close>, the first capture group: the leftmost comma whose
  remainder is not empty and holds no line terminator up to the end of the text.
\<close>

fun name_match :: "string \<Rightarrow> string option" where
  "name_match [] = None"
| "name_match (c # cs) =
     (if c = CHR '','' \<and> cs \<noteq> [] \<and> \<not> list_ex line_terminator cs then Some cs
      else name_match cs)"

definition parseExtInf :: "string \<Rightarrow> channel" where
  "parseExtInf line =
     (let ch0 = foldl set_attr default_channel (attr_matches line);
          ch1 = (case name_match line of None \<Rightarrow> ch0 | Some t \<Rightarrow> ch0\<lparr>name := trim t\<rparr>)
      in if name ch1 = ''Unknown Channel'' \<and> tvgName ch1 \<noteq> [] then ch1\<lparr>name := tvgName ch1\<rparr>
         else ch1)"

subsection \<open>\<open>generateId\<close>\<close>

text \<open>
  \<open>hash = ((hash << 5) - hash) + char; hash = hash & hash\<close>: every round ends in a
  32-bit integer, so the arithmetic is that of \<open>32 word\<close>.
\<close>

definition hash_step :: "32 word \<Rightarrow> char \<Rightarrow> 32 word" where
  "hash_step h c = (push_bit 5 h - h) + of_nat (of_char c)"

definition digit36 :: "nat \<Rightarrow> char" where
  "digit36 d = (''0123456789abcdefghijklmnopqrstuvwxyz'' ! d)"

function toString36 :: "nat \<Rightarrow> string" where
  "toString36 n = (if n < 36 then [digit36 n] else toString36 (n div 36) @ [digit36 (n mod 36)])"
  by pat_completeness auto
termination
  by (relation "measure id") auto

definition generateId :: "channel \<Rightarrow> string" where
  "generateId ch =
     ''ch_'' @ toString36 (nat \<bar>sint (foldl hash_step 0 (name ch @ url ch))\<bar>)"

subsection \<open>\<open>parse\<close>\<close>

text \<open>
  The loop over the lines, with the pending channel (\<open>currentChannel\<close>, \<open>None\<close>
  for \<open>null\<close>) and the channels pushed so far.
\<close>

fun parse_lines :: "string list \<Rightarrow> channel option \<Rightarrow> channel list \<Rightarrow> channel list" where
  "parse_lines [] cur acc = acc"
| "parse_lines (l # ls) cur acc =
     (let line = trim l
      in if line = [] then parse_lines ls cur acc
         else if startsWith line ''#EXTINF:'' then parse_lines ls (Some (parseExtInf line)) acc
         else if startsWith line ''http'' \<and> cur \<noteq> None
         then (let c1 = (the cur)\<lparr>url := line\<rparr>; c2 = c1\<lparr>id_ch := generateId c1\<rparr>
               in parse_lines ls None (acc @ [c2]))
         else parse_lines ls cur acc)"

definition parse :: "string \<Rightarrow> channel list" where
  "parse content = parse_lines (split_lines content) None []"

subsection \<open>\<open>search\<close>\<close>

definition search :: "channel list \<Rightarrow> string \<Rightarrow> channel list" where
  "search channels query =
     (if query = [] \<or> trim query = [] then []
      else (let searchTerm = trim (toLowerCase query)
            in filter (\<lambda>ch. includes_js (toLowerCase (name ch)) searchTerm
                          \<or> includes_js (toLowerCase (group_ch ch)) searchTerm
                          \<or> (country ch \<noteq> [] \<and> includes_js (toLowerCase (country ch)) searchTerm)
                          \<or> (language ch \<noteq> [] \<and> includes_js (toLowerCase (language ch)) searchTerm))
                 channels))"

text \<open>
  The two notions the description of \<open>search\<close> uses, in its own words: a query is
  blank when it is empty or holds white space only; a field contains a query as a
  case-insensitive substring when the lowered field has the lowered query inside it.
\<close>

definition blank :: "string \<Rightarrow> bool" where
  "blank q = list_all is_space q"

definition ci_contains :: "string \<Rightarrow> string \<Rightarrow> bool" where
  "ci_contains field q = (\<exists>pre suf. toLowerCase field = pre @ toLowerCase q @ suf)"

text \<open>
  The text after the first comma of a line and the text after its last comma; in a
  line without double quotes every comma is a top-level one.
\<close>

definition after_first_comma :: "string \<Rightarrow> string" where
  "after_first_comma line = drop 1 (dropWhile (\<lambda>c. c \<noteq> CHR '','') line)"

definition after_last_comma :: "string \<Rightarrow> string" where
  "after_last_comma line = rev (takeWhile (\<lambda>c. c \<noteq> CHR '','') (rev line))"

text \<open>
  A comma is top-level when it stands outside double quotes. Read from the left with
  the flag saying whether the text starts inside quotes: whether some comma stands
  inside quotes, and the text after the first top-level comma.
\<close>

fun comma_in_quotes :: "bool \<Rightarrow> string \<Rightarrow> bool" where
  "comma_in_quotes inq [] = False"
| "comma_in_quotes inq (c # cs) =
     (if c = dquote then comma_in_quotes (\<not> inq) cs
      else (c = CHR '','' \<and> inq) \<or> comma_in_quotes inq cs)"

fun after_top_comma :: "bool \<Rightarrow> string \<Rightarrow> string" where
  "after_top_comma inq [] = []"
| "after_top_comma inq (c # cs) =
     (if c = dquote then after_top_comma (\<not> inq) cs
      else if c = CHR '','' \<and> \<not> inq then cs
      else after_top_comma inq cs)"

text \<open>
  The value of an attribute of a line: the value of the last pair \<open>key="value"\<close> on
  the line whose key is the given one in any case, empty when there is no such pair.
\<close>

definition attr_value :: "string \<Rightarrow> string \<Rightarrow> string" where
  "attr_value key line =
     (case filter (\<lambda>kv. toLowerCase (fst kv) = key) (attr_matches line) of
        [] \<Rightarrow> []
      | kv # kvs \<Rightarrow> snd (last (kv # kvs)))"

text \<open>Example lines: a title with a comma, an attribute only, a comma inside quotes.\<close>

definition line_title :: string where
  "line_title = ''#EXTINF:-1 tvg-name='' @ [dquote] @ ''X'' @ [dquote] @ '',News, Sports''"

definition line_attr :: string where
  "line_attr = ''#EXTINF:-1 tvg-name='' @ [dquote] @ ''X'' @ [dquote]"

definition line_quoted :: string where
  "line_quoted = ''#EXTINF:-1 group-title='' @ [dquote] @ ''News, Sports'' @ [dquote] @ '',CNN''"

section \<open>Playlist fetcher (\<open>M3UParser.fetchPlaylist\<close>)\<close>

definition PLAYLIST_URL :: string where
  "PLAYLIST_URL = ''https://iptv-org.github.io/iptv/index.m3u8''"

definition CORS_PROXIES :: "string list" where
  "CORS_PROXIES = [''https://corsproxy.io/?'', ''https://api.allorigins.win/raw?url='', '''']"

subsection \<open>\<open>encodeURIComponent\<close>\<close>

text \<open>
  The unreserved characters stay; every other code unit is written as the percent
  escapes of its UTF-8 bytes: one byte below 128, two bytes from 128 to 255.
\<close>

definition uri_unreserved :: "char \<Rightarrow> bool" where
  "uri_unreserved c =
     (c \<in> set (''ABCDEFGHIJKLMNOPQRSTUVWXYZabcdefghijklmnopqrstuvwxyz0123456789-_.!~*()''
               @ [CHR 0x27]))"

definition hex2 :: "nat \<Rightarrow> string" where
  "hex2 n = [''0123456789ABCDEF'' ! (n div 16), ''0123456789ABCDEF'' ! (n mod 16)]"

definition encode_unit :: "char \<Rightarrow> string" where
  "encode_unit c =
     (let n = (of_char c :: nat)
      in if uri_unreserved c then [c]
         else if n < 128 then CHR ''%'' # hex2 n
         else CHR ''%'' # hex2 (192 + n div 64) @ CHR ''%'' # hex2 (128 + n mod 64))"

definition encodeURIComponent :: "string \<Rightarrow> string" where
  "encodeURIComponent s = concat (map encode_unit s)"

subsection \<open>Transport, cache and errors\<close>

text \<open>
  A response of \<open>fetch\<close>: its status and what \<open>response.text()\<close> gives, \<open>Inl\<close>
  the message of the rejection when the body cannot be read. The transport maps the
  requested address to \<open>Inl\<close> the message of a rejected request or to \<open>Inr\<close> the
  response. The four addresses one call requests differ in length, so a function of
  the address loses nothing.
\<close>

record response =
  status :: nat
  body :: "string + string"

type_synonym transport = "string \<Rightarrow> string + response"

definition ok :: "response \<Rightarrow> bool" where
  "ok r = (200 \<le> status r \<and> status r \<le> 299)"

text \<open>
  The errors of the fetcher: \<open>HttpError s\<close> is
  \<open>new Error(`HTTP error! status: ${s}`)\<close>, \<open>Thrown m\<close> an error raised by the
  transport or by the cache write with message \<open>m\<close>, \<open>FailedToFetch\<close> is
  \<open>new Error('Failed to fetch playlist')\<close>.
\<close>

datatype fetch_error = HttpError nat | Thrown string | FailedToFetch

text \<open>
  What the outside sees of a call: the requests in their order, the calls of
  \<open>Storage.cacheChannels\<close> and the warnings of the \<open>catch\<close> blocks.
\<close>

datatype event = Request string | Cache "channel list" | Warn fetch_error

text \<open>How one strategy ends: channels, no channel and no error, or a caught error.\<close>

datatype attempt = Got "channel list" | Empty | Failed fetch_error

definition request_url :: "string \<Rightarrow> string \<Rightarrow> string" where
  "request_url proxy target = (if proxy \<noteq> [] then proxy @ encodeURIComponent target else target)"

text \<open>The body of the \<open>try\<close> inside the loop over \<open>CORS_PROXIES\<close>.\<close>

definition attempt_proxy :: "transport \<Rightarrow> string \<Rightarrow> string \<Rightarrow> attempt" where
  "attempt_proxy fetch proxy target =
     (case fetch (request_url proxy target) of
        Inl m \<Rightarrow> Failed (Thrown m)
      | Inr r \<Rightarrow>
          if \<not> ok r then Failed (HttpError (status r))
          else (case body r of
                  Inl m \<Rightarrow> Failed (Thrown m)
                | Inr content \<Rightarrow>
                    (let channels = parse content
                     in if channels \<noteq> [] then Got channels else Empty)))"

text \<open>
  What \<open>Storage.cacheChannels(channels)\<close> does for the caller: \<open>None\<close> when it
  returns, \<open>Some m\<close> when it raises an error with message \<open>m\<close>. It can raise: its
  \<open>catch\<close> block calls \<open>localStorage.removeItem\<close> outside any guard.
\<close>

type_synonym cache_write = "channel list \<Rightarrow> string option"

text \<open>
  The loop, with \<open>lastError\<close> (\<open>None\<close> for \<open>null\<close>) and the events so far: \<open>Inl\<close>
  is the \<open>return channels\<close> inside the loop, \<open>Inr\<close> the value of \<open>lastError\<close> when
  the loop runs out. The cache write stands inside the \<open>try\<close>: when it raises, the
  \<open>catch\<close> takes its error as that of the strategy and the loop goes on.
\<close>

fun proxy_loop ::
  "transport \<Rightarrow> cache_write \<Rightarrow> string \<Rightarrow> string list \<Rightarrow> fetch_error option \<Rightarrow> event list
     \<Rightarrow> (channel list + fetch_error option) \<times> event list" where
  "proxy_loop fetch store target [] lastError tr = (Inr lastError, tr)"
| "proxy_loop fetch store target (proxy # ps) lastError tr =
     (case attempt_proxy fetch proxy target of
        Got channels \<Rightarrow>
          (case store channels of
             None \<Rightarrow> (Inl channels, tr @ [Request (request_url proxy target), Cache channels])
           | Some m \<Rightarrow>
               proxy_loop fetch store target ps (Some (Thrown m))
                 (tr @ [Request (request_url proxy target), Cache channels, Warn (Thrown m)]))
      | Empty \<Rightarrow>
          proxy_loop fetch store target ps lastError (tr @ [Request (request_url proxy target)])
      | Failed e \<Rightarrow>
          proxy_loop fetch store target ps (Some e)
            (tr @ [Request (request_url proxy target), Warn e]))"

definition php_url :: "string \<Rightarrow> string" where
  "php_url target = ''php/proxy.php?url='' @ encodeURIComponent target"

text \<open>
  The body of the second \<open>try\<close> up to the cache write: a response that is not ok
  raises nothing.
\<close>

definition attempt_php :: "transport \<Rightarrow> string \<Rightarrow> attempt" where
  "attempt_php fetch target =
     (case fetch (php_url target) of
        Inl m \<Rightarrow> Failed (Thrown m)
      | Inr r \<Rightarrow>
          if ok r
          then (case body r of
                  Inl m \<Rightarrow> Failed (Thrown m)
                | Inr content \<Rightarrow>
                    (let channels = parse content
                     in if channels \<noteq> [] then Got channels else Empty))
          else Empty)"

text \<open>\<open>throw lastError || new Error('Failed to fetch playlist')\<close>.\<close>

definition raised :: "fetch_error option \<Rightarrow> fetch_error" where
  "raised lastError = (case lastError of Some e \<Rightarrow> e | None \<Rightarrow> FailedToFetch)"

text \<open>
  The loop, then the relay endpoint, then the \<open>throw\<close>. The \<open>catch\<close> of the relay
  warns and assigns nothing, also when it is the cache write that raised.
\<close>

definition fetch_network ::
  "transport \<Rightarrow> cache_write \<Rightarrow> string \<Rightarrow> (fetch_error + channel list) \<times> event list" where
  "fetch_network fetch store target =
     (case proxy_loop fetch store target CORS_PROXIES None [] of
        (Inl channels, tr) \<Rightarrow> (Inr channels, tr)
      | (Inr lastError, tr) \<Rightarrow>
          (case attempt_php fetch target of
             Got channels \<Rightarrow>
               (case store channels of
                  None \<Rightarrow> (Inr channels, tr @ [Request (php_url target), Cache channels])
                | Some m \<Rightarrow>
                    (Inl (raised lastError),
                     tr @ [Request (php_url target), Cache channels, Warn (Thrown m)]))
           | Empty \<Rightarrow> (Inl (raised lastError), tr @ [Request (php_url target)])
           | Failed e \<Rightarrow> (Inl (raised lastError), tr @ [Request (php_url target), Warn e])))"

text \<open>
  \<open>cached\<close> is what \<open>Storage.getCachedChannels()\<close> returns, \<open>None\<close> for \<open>null\<close>;
  that method catches every error of its own.
\<close>

definition fetchPlaylist ::
  "transport \<Rightarrow> cache_write \<Rightarrow> channel list option \<Rightarrow> string
     \<Rightarrow> (fetch_error + channel list) \<times> event list" where
  "fetchPlaylist fetch store cached target =
     (case cached of
        None \<Rightarrow> fetch_network fetch store target
      | Some c \<Rightarrow> if c \<noteq> [] then (Inr c, []) else fetch_network fetch store target)"



definition yields :: "transport \<Rightarrow> string \<Rightarrow> bool" where
  "yields fetch u =
     (case fetch u of
        Inl m \<Rightarrow> False
      | Inr r \<Rightarrow> ok r \<and> (case body r of Inl m \<Rightarrow> False | Inr content \<Rightarrow> parse content \<noteq> []))"

definition channels_of :: "transport \<Rightarrow> string \<Rightarrow> channel list" where
  "channels_of fetch u =
     (case fetch u of
        Inl m \<Rightarrow> []
      | Inr r \<Rightarrow> (case body r of Inl m \<Rightarrow> [] | Inr content \<Rightarrow> parse content))"






definition relay_down :: transport where
  "relay_down u =
     (if startsWith u ''php/'' then Inl ''relay down'' else Inr \<lparr>status = 200, body = Inr []\<rparr>)"

definition store_returns :: cache_write where
  "store_returns channels = None"


section \<open>Focus registry (\<open>Navigation.updateFocusableElements\<close>)\<close>

text \<open>
  The bounding geometry of a target, as \<open>getBoundingClientRect()\<close> reports it: the
  top and the left coordinate, as real numbers.
\<close>

record rect =
  top_r :: real
  left_r :: real

text \<open>
  The array \<open>this.grid\<close> while the buckets are filled. A JavaScript array is an
  object with a \<open>length\<close>: writing at a key that is an index at or beyond the length
  leaves holes and moves the length past the key, writing at a negative key makes a
  plain property and leaves the length alone. An array index is an integer from 0 to
  \<open>2^32 - 2\<close>; an integer key beyond that range is a plain property as well.
\<close>

record 'e js_array =
  props :: "int \<Rightarrow> 'e list option"
  len :: nat

definition empty_array :: "'e js_array" where
  "empty_array = \<lparr>props = (\<lambda>k. None), len = 0\<rparr>"

definition array_index :: "int \<Rightarrow> bool" where
  "array_index k = (0 \<le> k \<and> k < 4294967295)"

definition array_set :: "'e js_array \<Rightarrow> int \<Rightarrow> 'e list \<Rightarrow> 'e js_array" where
  "array_set g k v =
     \<lparr>props = (props g)(k \<mapsto> v),
      len = (if array_index k then max (len g) (nat k + 1) else len g)\<rparr>"

text \<open>\<open>this.grid[row].push(el)\<close>, on a bucket that is there.\<close>

definition bucket_push :: "'e js_array \<Rightarrow> int \<Rightarrow> 'e \<Rightarrow> 'e js_array" where
  "bucket_push g k el = g\<lparr>props := (props g)(k := map_option (\<lambda>b. b @ [el]) (props g k))\<rparr>"

definition band :: "('e \<Rightarrow> rect) \<Rightarrow> 'e \<Rightarrow> int" where
  "band geom el = \<lfloor>top_r (geom el) / 80\<rfloor>"

text \<open>The body of \<open>focusables.forEach\<close>.\<close>

definition bucket_step :: "('e \<Rightarrow> rect) \<Rightarrow> 'e js_array \<Rightarrow> 'e \<Rightarrow> 'e js_array" where
  "bucket_step geom g el =
     (let row = band geom el;
          g1 = (if props g row = None then array_set g row [] else g)
      in bucket_push g1 row el)"

text \<open>
  \<open>this.grid.filter(row => row && row.length > 0)\<close>: the indices below the length
  in their order, holes skipped, empty buckets dropped. A property at a key that is
  no array index is not visited.
\<close>

definition array_filter_rows :: "'e js_array \<Rightarrow> 'e list list" where
  "array_filter_rows g =
     filter (\<lambda>row. row \<noteq> []) (List.map_filter (\<lambda>i. props g (int i)) [0..<len g])"

text \<open>
  The grid of a sequence of candidate targets: buckets, filter, and each row sorted
  with the comparator \<open>rectA.left - rectB.left\<close> (the sort of arrays is stable).
\<close>

definition buildGrid :: "('e \<Rightarrow> rect) \<Rightarrow> 'e list \<Rightarrow> 'e list list" where
  "buildGrid geom focusables =
     map (sort_key (\<lambda>el. left_r (geom el)))
       (array_filter_rows (foldl (bucket_step geom) empty_array focusables))"

text \<open>The geometry of an example surface, its targets named by numbers.\<close>

definition geom4 :: "nat \<Rightarrow> rect" where
  "geom4 n =
     (if n = 2 then \<lparr>top_r = 10, left_r = 300\<rparr>
      else if n = 3 then \<lparr>top_r = 15, left_r = 20\<rparr>
      else if n = 4 then \<lparr>top_r = 170, left_r = 5\<rparr>
      else \<lparr>top_r = - 25, left_r = 40\<rparr>)"

text \<open>A surface with two targets at the first band index that is no array index.\<close>

definition geom_far :: "nat \<Rightarrow> rect" where
  "geom_far n =
     (if n = 3 then \<lparr>top_r = 10, left_r = 0\<rparr> else \<lparr>top_r = 343597383600, left_r = 0\<rparr>)"

text \<open>
  For the proofs: the candidates of one band in their order, the length of the array
  after the buckets are filled, and the property that every key that is an index lies
  below the length.
\<close>

definition bucket_of :: "('e \<Rightarrow> rect) \<Rightarrow> 'e list \<Rightarrow> int \<Rightarrow> 'e list" where
  "bucket_of geom els k = filter (\<lambda>e. band geom e = k) els"

definition grid_len :: "('e \<Rightarrow> rect) \<Rightarrow> 'e list \<Rightarrow> nat" where
  "grid_len geom els = len (foldl (bucket_step geom) empty_array els)"

definition indexed :: "'e js_array \<Rightarrow> bool" where
  "indexed g = (\<forall>k. array_index k \<longrightarrow> props g k \<noteq> None \<longrightarrow> nat k < len g)"

section \<open>Navigation engine (\<open>Navigation\<close>)\<close>

text \<open>
  The state of the \<open>Navigation\<close> object. A target is an opaque handle of type
  \<open>'e\<close>; \<open>None\<close> is \<open>null\<close>. The cursor fields hold whatever integers were stored
  last. A history entry is the pair \<open>{element, section}\<close>.
\<close>

record 'e navigation =
  focusedElement :: "'e option"
  focusHistory :: "('e option \<times> string) list"
  grid :: "'e list list"
  currentRow :: int
  currentCol :: int
  currentSection :: string
  isPlayerActive :: bool

text \<open>
  The surface the engine queries: whether
  \<open>document.querySelector('.section.active, #player-overlay:not(.hidden)')\<close> finds
  an element, the three \<open>querySelectorAll\<close> results, \<open>getBoundingClientRect\<close>,
  \<open>document.contains\<close>, \<open>closest('.channel-card')\<close>,
  \<open>querySelector('[data-action="favorite"]')\<close>, and what the listeners run by
  \<open>click()\<close> on a target do to the state of the engine. \<open>click()\<close> itself never
  raises: an exception inside a listener is reported, not passed to the caller. Marking
  a target with the class \<open>focused\<close> and scrolling it into view change the surface
  only and are not part of the state.
\<close>

record 'e surface =
  sectionFound :: bool
  playerFocusables :: "'e list"
  headerFocusables :: "'e list"
  sectionFocusables :: "'e list"
  boundingRect :: "'e \<Rightarrow> rect"
  attached :: "'e \<Rightarrow> bool"
  closestCard :: "'e \<Rightarrow> 'e option"
  favoriteBtn :: "'e \<Rightarrow> 'e option"
  onClick :: "'e \<Rightarrow> 'e navigation \<Rightarrow> 'e navigation"

text \<open>
  The two objects the engine reaches through \<open>window\<close>: \<open>None\<close> when the property
  of \<open>window\<close> is undefined, otherwise the methods of the object by name, each with
  what it does to the state of the engine.
\<close>

record 'e globals =
  Player :: "(string \<rightharpoonup> ('e navigation \<Rightarrow> 'e navigation)) option"
  App :: "(string \<rightharpoonup> (string \<Rightarrow> 'e navigation \<Rightarrow> 'e navigation)) option"

text \<open>
  The members of the object literals \<open>Player\<close> and \<open>App\<close> of the repository. Neither
  script assigns its object to \<open>window\<close>.
\<close>

definition Player_members :: "string list" where
  "Player_members =
     [''state'', ''hls'', ''videoElement'', ''controlsVisible'', ''controlsTimeout'',
      ''controlsTimeoutDuration'', ''init'', ''setupVideoListeners'', ''setupControls'',
      ''setupKeyboardShortcuts'', ''play'', ''togglePlayPause'', ''toggleMute'', ''setVolume'',
      ''changeVolume'', ''seek'', ''skip'', ''toggleFullscreen'', ''closePlayer'',
      ''updatePlayButton'', ''updateVolumeButton'', ''updateProgressBar'', ''updateDuration'',
      ''updateVolumeDisplay'', ''showControls'', ''hideControls'', ''showPlayerError'',
      ''formatTime'']"

definition App_members :: "string list" where
  "App_members =
     [''state'', ''config'', ''init'', ''initStorage'', ''setupUIListeners'', ''loadChannels'',
      ''renderChannels'', ''playChannel'', ''toggleFavorite'', ''switchSection'',
      ''handlePlaylistUpload'', ''handlePlaylistUrlInput'', ''setupChannelRefresh'', ''showApp'',
      ''showError'', ''showMessage'']"

text \<open>
  A property of \<open>window\<close> as the repository leaves it: undefined, or an object with
  no member beyond the listed ones.
\<close>

definition of_repository :: "string list \<Rightarrow> (string \<rightharpoonup> 'f) option \<Rightarrow> bool" where
  "of_repository members obj =
     (case obj of None \<Rightarrow> True | Some m \<Rightarrow> (\<forall>k. m k \<noteq> None \<longrightarrow> k \<in> set members))"

datatype js_error = TypeError

text \<open>
  The result of a method that may raise: \<open>Inl\<close> the error with the state at the
  \<open>throw\<close>, \<open>Inr\<close> the state at the return.
\<close>

type_synonym 'e outcome = "js_error \<times> 'e navigation + 'e navigation"

definition state_of :: "'e outcome \<Rightarrow> 'e navigation" where
  "state_of r = (case r of Inl (err, s) \<Rightarrow> s | Inr s \<Rightarrow> s)"

text \<open>
  \<open>obj.method(...)\<close> through \<open>window\<close>: a \<open>TypeError\<close> when the object is
  undefined or has no such member.
\<close>

definition call_method :: "(string \<rightharpoonup> 'f) option \<Rightarrow> string \<Rightarrow> 'f option" where
  "call_method obj m = (case obj of None \<Rightarrow> None | Some members \<Rightarrow> members m)"

text \<open>Reading an array at an index: \<open>undefined\<close> outside the range.\<close>

definition at_index :: "'a list \<Rightarrow> int \<Rightarrow> 'a option" where
  "at_index xs i = (if 0 \<le> i \<and> i < int (length xs) then Some (xs ! nat i) else None)"

text \<open>\<open>row.indexOf(currentEl)\<close>: the first position, \<open>-1\<close> when there is none.\<close>

definition indexOf :: "'e list \<Rightarrow> 'e option \<Rightarrow> int" where
  "indexOf row el =
     (case el of
        None \<Rightarrow> - 1
      | Some e \<Rightarrow> if e \<in> set row then int (length (takeWhile (\<lambda>x. x \<noteq> e) row)) else - 1)"

definition updateFocusableElements :: "'e surface \<Rightarrow> 'e navigation \<Rightarrow> 'e navigation" where
  "updateFocusableElements d s =
     (if \<not> sectionFound d then s
      else s\<lparr>grid := buildGrid (boundingRect d)
                (if isPlayerActive s then playerFocusables d
                 else headerFocusables d @ sectionFocusables d)\<rparr>)"

definition setFocus :: "'e option \<Rightarrow> 'e navigation \<Rightarrow> 'e navigation" where
  "setFocus element s = (case element of None \<Rightarrow> s | Some el \<Rightarrow> s\<lparr>focusedElement := Some el\<rparr>)"

text \<open>
  The loop that finds the current position: the first row, from row number \<open>r\<close> on,
  that holds the focused target sets the cursor; without one the cursor stays.
\<close>

fun locate :: "'e list list \<Rightarrow> 'e option \<Rightarrow> int \<Rightarrow> 'e navigation \<Rightarrow> 'e navigation" where
  "locate [] el r s = s"
| "locate (row # rows) el r s =
     (if indexOf row el \<noteq> - 1 then s\<lparr>currentRow := r, currentCol := indexOf row el\<rparr>
      else locate rows el (r + 1) s)"

datatype direction = Up | Down | Left | Right

text \<open>
  The \<open>switch (direction)\<close>: the state with the cursor as the case leaves it and
  \<open>nextEl\<close>, or the \<open>TypeError\<close> of reading \<open>length\<close> or an index of a row that is
  undefined.
\<close>

definition step_to :: "'e navigation \<Rightarrow> js_error \<times> 'e navigation + 'e navigation \<times> 'e option" where
  "step_to s =
     (case at_index (grid s) (currentRow s) of
        None \<Rightarrow> Inl (TypeError, s)
      | Some row \<Rightarrow> Inr (s, at_index row (currentCol s)))"

definition clamp_to :: "'e navigation \<Rightarrow> js_error \<times> 'e navigation + 'e navigation \<times> 'e option" where
  "clamp_to s =
     (case at_index (grid s) (currentRow s) of
        None \<Rightarrow> Inl (TypeError, s)
      | Some row \<Rightarrow> step_to (s\<lparr>currentCol := min (currentCol s) (int (length row) - 1)\<rparr>))"

definition move :: "direction \<Rightarrow> 'e navigation \<Rightarrow> js_error \<times> 'e navigation + 'e navigation \<times> 'e option" where
  "move dir s =
     (case dir of
        Up \<Rightarrow>
          if currentRow s > 0 then clamp_to (s\<lparr>currentRow := currentRow s - 1\<rparr>)
          else Inr (s, None)
      | Down \<Rightarrow>
          if currentRow s < int (length (grid s)) - 1 then clamp_to (s\<lparr>currentRow := currentRow s + 1\<rparr>)
          else Inr (s, None)
      | Left \<Rightarrow>
          if currentCol s > 0 then step_to (s\<lparr>currentCol := currentCol s - 1\<rparr>)
          else if currentRow s > 0
          then (let s1 = s\<lparr>currentRow := currentRow s - 1\<rparr>
                in case at_index (grid s1) (currentRow s1) of
                     None \<Rightarrow> Inl (TypeError, s1)
                   | Some row \<Rightarrow> step_to (s1\<lparr>currentCol := int (length row) - 1\<rparr>))
          else Inr (s, None)
      | Right \<Rightarrow>
          (case at_index (grid s) (currentRow s) of
             None \<Rightarrow> Inl (TypeError, s)
           | Some row \<Rightarrow>
               if currentCol s < int (length row) - 1 then step_to (s\<lparr>currentCol := currentCol s + 1\<rparr>)
               else if currentRow s < int (length (grid s)) - 1
               then step_to (s\<lparr>currentRow := currentRow s + 1, currentCol := 0\<rparr>)
               else Inr (s, None)))"

definition navigate :: "'e surface \<Rightarrow> direction \<Rightarrow> 'e navigation \<Rightarrow> 'e outcome" where
  "navigate d dir s0 =
     (let s1 = (if grid s0 = [] then updateFocusableElements d s0 else s0)
      in if grid s1 = [] then Inr s1
         else (let currentEl = focusedElement s1;
                   s2 = locate (grid s1) currentEl 0 s1
               in case move dir s2 of
                    Inl err \<Rightarrow> Inl err
                  | Inr (s3, nextEl) \<Rightarrow>
                      if nextEl \<noteq> None \<and> nextEl \<noteq> currentEl then Inr (setFocus nextEl s3)
                      else Inr s3))"

text \<open>
  \<open>select\<close>: the click runs the listeners, then the entry is pushed from the state
  as the listeners left it, and the oldest entry is shifted out beyond twenty.
\<close>

definition select :: "'e surface \<Rightarrow> 'e navigation \<Rightarrow> 'e navigation" where
  "select d s =
     (case focusedElement s of
        None \<Rightarrow> s
      | Some el \<Rightarrow>
          (let s1 = onClick d el s;
               h = focusHistory s1 @ [(focusedElement s1, currentSection s1)]
           in s1\<lparr>focusHistory := (if length h > 20 then tl h else h)\<rparr>))"

text \<open>\<open>back\<close>, named \<open>back_js\<close> here.\<close>

definition back_js :: "'e globals \<Rightarrow> 'e surface \<Rightarrow> 'e navigation \<Rightarrow> 'e outcome" where
  "back_js w d s =
     (if isPlayerActive s
      then (case call_method (Player w) ''close'' of
              None \<Rightarrow> Inl (TypeError, s)
            | Some close \<Rightarrow> Inr (close s))
      else if currentSection s \<noteq> ''home''
      then (case call_method (App w) ''showSection'' of
              None \<Rightarrow> Inl (TypeError, s)
            | Some showSection \<Rightarrow> Inr (showSection ''home'' s))
      else if focusHistory s \<noteq> []
      then (let entry = last (focusHistory s);
                s1 = s\<lparr>focusHistory := butlast (focusHistory s)\<rparr>
            in case fst entry of
                 None \<Rightarrow> Inr s1
               | Some el \<Rightarrow> if attached d el then Inr (setFocus (Some el) s1) else Inr s1)
      else Inr s)"

definition toggleFavorite :: "'e surface \<Rightarrow> 'e navigation \<Rightarrow> 'e navigation" where
  "toggleFavorite d s =
     (case focusedElement s of
        None \<Rightarrow> s
      | Some el \<Rightarrow>
          (case closestCard d el of
             None \<Rightarrow> s
           | Some channelCard \<Rightarrow>
               (case favoriteBtn d channelCard of None \<Rightarrow> s | Some btn \<Rightarrow> onClick d btn s)))"

text \<open>
  The cursor of a state: row and column as the search of \<open>navigate\<close> finds them,
  from the focused target when the grid holds it, else the stored values.
\<close>

definition cursor :: "'e navigation \<Rightarrow> int \<times> int" where
  "cursor s =
     (let s1 = locate (grid s) (focusedElement s) 0 s in (currentRow s1, currentCol s1))"

text \<open>A sequence of select and back calls, each on the surface of its moment.\<close>

datatype nav_op = Select | Back

fun run_ops :: "'e globals \<Rightarrow> ('e surface \<times> nav_op) list \<Rightarrow> 'e navigation \<Rightarrow> 'e navigation" where
  "run_ops w [] s = s"
| "run_ops w ((d, Select) # ops) s = run_ops w ops (select d s)"
| "run_ops w ((d, Back) # ops) s = run_ops w ops (state_of (back_js w d s))"

text \<open>
  Code outside the engine that leaves the focus history alone, as all code of the
  repository outside \<open>select\<close> and \<open>back\<close> does.
\<close>

definition keeps_history :: "('e navigation \<Rightarrow> 'e navigation) \<Rightarrow> bool" where
  "keeps_history f = (\<forall>s. focusHistory (f s) = focusHistory s)"

definition quiet_surface :: "'e surface \<Rightarrow> bool" where
  "quiet_surface d = (\<forall>el. keeps_history (onClick d el))"

definition quiet_globals :: "'e globals \<Rightarrow> bool" where
  "quiet_globals w =
     ((\<forall>f. call_method (Player w) ''close'' = Some f \<longrightarrow> keeps_history f)
      \<and> (\<forall>f. call_method (App w) ''showSection'' = Some f \<longrightarrow> keeps_history (f ''home'')))"

text \<open>Examples: a surface without listeners, \<open>window\<close> as the scripts leave it.\<close>

definition plain_surface :: "nat surface" where
  "plain_surface =
     \<lparr>sectionFound = True, playerFocusables = [], headerFocusables = [2, 3],
      sectionFocusables = [4, 5, 6], boundingRect = geom4, attached = (\<lambda>el. True),
      closestCard = (\<lambda>el. None), favoriteBtn = (\<lambda>el. None), onClick = (\<lambda>el s. s)\<rparr>"

definition bare_window :: "nat globals" where
  "bare_window = \<lparr>Player = None, App = None\<rparr>"

definition nav0 :: "nat navigation" where
  "nav0 =
     \<lparr>focusedElement = None, focusHistory = [], grid = [[3, 2], [4]], currentRow = 0,
      currentCol = 0, currentSection = ''home'', isPlayerActive = False\<rparr>"

text \<open>
  \<open>window\<close> with the object literal of the player script as \<open>window.Player\<close>,
  reduced to the member that closes the player, and a state with a full history.
\<close>

definition player_window :: "nat globals" where
  "player_window =
     \<lparr>Player = Some (\<lambda>m. if m = ''closePlayer'' then Some (\<lambda>s. s\<lparr>isPlayerActive := False\<rparr>) else None),
      App = None\<rparr>"

definition nav_full :: "nat navigation" where
  "nav_full = nav0\<lparr>focusedElement := Some 3, focusHistory := replicate 20 (Some 2, ''home'')\<rparr>"

section \<open>Properties of the string functions\<close>

lemma char_eq_code: "(c = d) = ((of_char c :: nat) = of_char d)"
  by simp

lemma is_space_code: "is_space c = ((of_char c :: nat) \<in> {9, 10, 11, 12, 13, 32, 160})"
  unfolding is_space_def by (simp add: char_eq_code [of c])

lemma is_space_lower: "is_space (lower_char c) = is_space c"
proof -
  have "(of_char c :: nat) < 256" by simp
  then show ?thesis
    unfolding is_space_code lower_char_def Let_def by auto
qed

lemma trim_empty_iff: "trim q = [] \<longleftrightarrow> list_all is_space q"
proof -
  have "trim q = [] \<longleftrightarrow> (\<forall>c \<in> set (dropWhile is_space q). is_space c)"
    by (simp add: trim_def dropWhile_eq_Nil_conv)
  also have "\<dots> \<longleftrightarrow> dropWhile is_space q = []"
    by (metis hd_dropWhile list.set_sel(1) empty_iff list.set(1))
  also have "\<dots> \<longleftrightarrow> list_all is_space q"
    by (simp add: dropWhile_eq_Nil_conv list_all_iff)
  finally show ?thesis .
qed

lemma dropWhile_space_lower:
  "dropWhile is_space (map lower_char s) = map lower_char (dropWhile is_space s)"
  by (induction s) (simp_all add: is_space_lower)

lemma trim_toLowerCase: "trim (toLowerCase q) = toLowerCase (trim q)"
  by (simp add: trim_def toLowerCase_def dropWhile_space_lower rev_map)

lemma startsWith_prefix: "startsWith s t = prefix t s"
  unfolding startsWith_def
  by (metis append_eq_conv_conj prefix_def take_is_prefix)

lemma includes_js_sublist: "includes_js s t = sublist t s"
  by (induction s) (auto simp: startsWith_prefix sublist_Cons_right)

lemma includes_js_ci_contains:
  "includes_js (toLowerCase field) (toLowerCase q) = ci_contains field q"
  by (simp add: includes_js_sublist sublist_def ci_contains_def)

lemma includes_js_Nil: "includes_js [] t = (t = [])"
  by simp

section \<open>Search\<close>

text \<open>
  C7. For every channel sequence, \<open>search\<close> with an empty or white-space-only query
  returns the empty sequence; for any other query it returns exactly the channels, in
  their order, whose name, group, country or language contains the trimmed query as a
  case-insensitive substring.
\<close>

theorem search_blank_or_ci_filter:
  "search channels q =
     (if blank q then []
      else filter (\<lambda>ch. ci_contains (name ch) (trim q) \<or> ci_contains (group_ch ch) (trim q)
                      \<or> ci_contains (country ch) (trim q) \<or> ci_contains (language ch) (trim q))
             channels)"
proof (cases "blank q")
  case True
  then show ?thesis
    by (simp add: search_def trim_empty_iff blank_def)
next
  case False
  then have ne: "trim q \<noteq> []"
    by (simp add: trim_empty_iff blank_def)
  then have tne: "toLowerCase (trim q) \<noteq> []"
    by (simp add: toLowerCase_def)
  have guard: "(f \<noteq> [] \<and> ci_contains f (trim q)) = ci_contains f (trim q)" for f
  proof (cases "f = []")
    case True
    with tne show ?thesis
      by (simp add: includes_js_ci_contains [symmetric] toLowerCase_def)
  next
    case False
    then show ?thesis by simp
  qed
  from False have "q \<noteq> []" by (auto simp: blank_def)
  with False ne show ?thesis
    by (simp add: search_def trim_toLowerCase includes_js_ci_contains guard)
qed

theorem search_blank_or_ci_filter_witness:
  "blank ''  '' \<and> search [default_channel] ''  '' = []
   \<and> \<not> blank '' UNKNOWN '' \<and> search [default_channel] '' UNKNOWN '' = [default_channel]"
proof -
  have b1: "blank ''  ''" by code_simp
  have b2: "\<not> blank '' UNKNOWN ''" by code_simp
  have t: "trim '' UNKNOWN '' = ''UNKNOWN''" by code_simp
  have c: "ci_contains (name default_channel) ''UNKNOWN''"
    unfolding includes_js_ci_contains [symmetric] by code_simp
  show ?thesis
    using search_blank_or_ci_filter [of "[default_channel]" "''  ''"]
      search_blank_or_ci_filter [of "[default_channel]" "'' UNKNOWN ''"] b1 b2 c
    by (simp add: t)
qed

section \<open>Channel name of a metadata line\<close>

lemma name_match_first_comma:
  "\<not> list_ex line_terminator line \<Longrightarrow>
   name_match line = (if after_first_comma line = [] then None else Some (after_first_comma line))"
  by (induction line) (auto simp: after_first_comma_def)

lemma tvgName_parseExtInf:
  "tvgName (parseExtInf line) = tvgName (foldl set_attr default_channel (attr_matches line))"
  by (simp add: parseExtInf_def Let_def split: option.splits)

lemma name_foldl_set_attr: "name (foldl set_attr ch kvs) = name ch"
  by (induction kvs arbitrary: ch) (simp_all add: set_attr_def Let_def)

text \<open>
  C4, as stated, fails: on \<open>#EXTINF:-1,News, Sports\<close> the text after the last comma
  is \<open> Sports\<close>, present and not empty, and the parsed name is \<open>News, Sports\<close>.
\<close>

theorem parseExtInf_name_last_comma_counterexample:
  "after_last_comma ''#EXTINF:-1,News, Sports'' = '' Sports''
   \<and> name (parseExtInf ''#EXTINF:-1,News, Sports'') = ''News, Sports''
   \<and> name (parseExtInf ''#EXTINF:-1,News, Sports'') \<noteq> after_last_comma ''#EXTINF:-1,News, Sports''
   \<and> name (parseExtInf ''#EXTINF:-1,News, Sports'') \<noteq> trim (after_last_comma ''#EXTINF:-1,News, Sports'')"
  by code_simp

lemma after_top_comma_first:
  "\<not> comma_in_quotes inq line \<Longrightarrow> after_top_comma inq line = after_first_comma line"
proof (induction line arbitrary: inq)
  case Nil
  then show ?case by (simp add: after_first_comma_def)
next
  case (Cons c cs)
  have q: "dquote \<noteq> CHR '',''"
    by (simp add: dquote_def)
  show ?case
  proof (cases "c = dquote")
    case True
    with Cons.prems have "\<not> comma_in_quotes (\<not> inq) cs" by simp
    from Cons.IH [OF this] True q show ?thesis
      by (simp add: after_first_comma_def)
  next
    case False
    with Cons.prems have n: "\<not> (c = CHR '','' \<and> inq)" "\<not> comma_in_quotes inq cs"
      by simp_all
    from Cons.IH [OF n(2)] False n(1) show ?thesis
      by (auto simp: after_first_comma_def)
  qed
qed

lemma tvgName_foldl_set_attr:
  "tvgName (foldl set_attr ch kvs) =
     (if filter (\<lambda>kv. toLowerCase (fst kv) = ''tvg-name'') kvs = [] then tvgName ch
      else snd (last (filter (\<lambda>kv. toLowerCase (fst kv) = ''tvg-name'') kvs)))"
proof (induction kvs rule: rev_induct)
  case Nil
  then show ?case by simp
next
  case (snoc x xs)
  show ?case
  proof (cases "toLowerCase (fst x) = ''tvg-name''")
    case True
    then show ?thesis
      by (simp add: set_attr_def Let_def)
  next
    case False
    then have "tvgName (set_attr (foldl set_attr ch xs) x) = tvgName (foldl set_attr ch xs)"
      by (simp add: set_attr_def Let_def)
    with False snoc.IH show ?thesis
      by simp
  qed
qed

lemma attr_value_last:
  "attr_value key line =
     (if filter (\<lambda>kv. toLowerCase (fst kv) = key) (attr_matches line) = [] then []
      else snd (last (filter (\<lambda>kv. toLowerCase (fst kv) = key) (attr_matches line))))"
  by (simp add: attr_value_def split: list.splits)

lemma tvgName_attr_value: "tvgName (parseExtInf line) = attr_value ''tvg-name'' line"
  by (simp add: tvgName_parseExtInf tvgName_foldl_set_attr attr_value_last default_channel_def)

text \<open>
  What the amended statement leaves out: with a comma inside a quoted attribute value
  the match starts at that comma, and the name is the rest of the line from there.
\<close>

lemma parseExtInf_quoted_comma:
  "comma_in_quotes False line_quoted
   \<and> name (parseExtInf line_quoted) = ''Sports'' @ [dquote] @ '',CNN''"
  by code_simp

text \<open>
  C4, amended. For every metadata line without a line terminator and with no comma
  inside double quotes, the parsed channel's name is the trimmed free-text title,
  everything after the first top-level comma on the line, when that text is present
  and is not the literal \<open>Unknown Channel\<close>; otherwise it is the \<open>tvg-name\<close>
  attribute value when that is not empty; otherwise the literal \<open>Unknown Channel\<close>.
\<close>

theorem parseExtInf_name_first_top_comma:
  assumes "\<not> list_ex line_terminator line" and "\<not> comma_in_quotes False line"
  shows "name (parseExtInf line) =
     (if after_top_comma False line \<noteq> []
         \<and> trim (after_top_comma False line) \<noteq> ''Unknown Channel''
      then trim (after_top_comma False line)
      else if attr_value ''tvg-name'' line \<noteq> [] then attr_value ''tvg-name'' line
      else ''Unknown Channel'')"
proof -
  have t: "tvgName (foldl set_attr default_channel (attr_matches line)) = attr_value ''tvg-name'' line"
    using tvgName_attr_value [of line] by (simp add: tvgName_parseExtInf)
  show ?thesis
    unfolding after_top_comma_first [OF assms(2)] t [symmetric]
    by (auto simp: parseExtInf_def Let_def name_match_first_comma [OF assms(1)]
        name_foldl_set_attr default_channel_def)
qed

theorem parseExtInf_name_first_top_comma_witness:
  "\<not> list_ex line_terminator line_title \<and> \<not> comma_in_quotes False line_title
   \<and> name (parseExtInf line_title) = ''News, Sports''
   \<and> \<not> list_ex line_terminator line_attr \<and> \<not> comma_in_quotes False line_attr
   \<and> name (parseExtInf line_attr) = ''X''"
proof -
  have h1: "\<not> list_ex line_terminator line_title" "\<not> comma_in_quotes False line_title"
    by code_simp+
  have h2: "\<not> list_ex line_terminator line_attr" "\<not> comma_in_quotes False line_attr"
    by code_simp+
  have a1: "after_top_comma False line_title = ''News, Sports''"
    by code_simp
  have t1: "trim ''News, Sports'' = ''News, Sports''"
    by code_simp
  have a2: "after_top_comma False line_attr = []"
    by code_simp
  have g2: "attr_value ''tvg-name'' line_attr = ''X''"
    by code_simp
  have r1: "name (parseExtInf line_title) = ''News, Sports''"
    using parseExtInf_name_first_top_comma [OF h1] unfolding a1 t1 by simp
  have r2: "name (parseExtInf line_attr) = ''X''"
    using parseExtInf_name_first_top_comma [OF h2] unfolding a2 g2 by simp
  show ?thesis
    using h1 h2 r1 r2 by blast
qed

section \<open>Transport strategies of the fetcher\<close>



lemma attempt_php_Got:
  "(attempt_php fetch t = Got x) = (yields fetch (php_url t) \<and> x = channels_of fetch (php_url t))"
  by (auto simp: attempt_php_def yields_def channels_of_def Let_def split: sum.splits)








lemma parse_empty: "parse [] = []"
  by (simp add: parse_def trim_def)




section \<open>Failure of the fetcher\<close>

text \<open>
  C9 fails on the code. The \<open>catch\<close> of the loop over the prefixes assigns
  \<open>lastError\<close>, the \<open>catch\<close> of the relay endpoint only warns. With the relay
  endpoint down and every other address answering with an empty playlist, the relay
  strategy is the one strategy with an error, the last one tried, and the raised
  failure is the generic one, not that error.
\<close>

theorem fetchPlaylist_relay_error_dropped:
  "attempt_php relay_down PLAYLIST_URL = Failed (Thrown ''relay down'')
   \<and> fst (fetchPlaylist relay_down store_returns None PLAYLIST_URL) = Inl FailedToFetch"
proof -
  have p: "startsWith (php_url PLAYLIST_URL) ''php/''"
    by (simp add: php_url_def startsWith_def)
  have q: "\<not> startsWith (request_url proxy PLAYLIST_URL) ''php/''" if "proxy \<in> set CORS_PROXIES" for proxy
    using that by (auto simp: CORS_PROXIES_def request_url_def startsWith_def PLAYLIST_URL_def)
  have a: "attempt_php relay_down PLAYLIST_URL = Failed (Thrown ''relay down'')"
    by (simp add: attempt_php_def relay_down_def p)
  have e: "attempt_proxy relay_down proxy PLAYLIST_URL = Empty" if "proxy \<in> set CORS_PROXIES" for proxy
    using q [OF that] by (simp add: attempt_proxy_def relay_down_def ok_def parse_empty)
  have l: "proxy_loop relay_down store_returns PLAYLIST_URL CORS_PROXIES None [] =
    (Inr None, map (\<lambda>proxy. Request (request_url proxy PLAYLIST_URL)) CORS_PROXIES)"
    using e by (simp add: CORS_PROXIES_def)
  show ?thesis
    by (simp add: a fetchPlaylist_def fetch_network_def l raised_def)
qed

section \<open>The grid of the focus registry\<close>

lemma props_bucket_step:
  "props (bucket_step geom g el) k =
     (if band geom el = k then Some ((case props g k of None \<Rightarrow> [] | Some b \<Rightarrow> b) @ [el])
      else props g k)"
  by (auto simp: bucket_step_def bucket_push_def array_set_def Let_def split: option.splits)

lemma len_bucket_step:
  "len (bucket_step geom g el) =
     (if props g (band geom el) = None \<and> array_index (band geom el)
      then max (len g) (nat (band geom el) + 1) else len g)"
  by (simp add: bucket_step_def bucket_push_def array_set_def Let_def)

lemma props_foldl_bucket_step:
  "props (foldl (bucket_step geom) g els) k =
     (if \<exists>e \<in> set els. band geom e = k
      then Some ((case props g k of None \<Rightarrow> [] | Some b \<Rightarrow> b) @ bucket_of geom els k)
      else props g k)"
  by (induction els arbitrary: g) (auto simp: props_bucket_step bucket_of_def split: option.splits)

lemma indexed_bucket_step: "indexed g \<Longrightarrow> indexed (bucket_step geom g el)"
  unfolding indexed_def props_bucket_step len_bucket_step
  by (auto split: if_splits) (force+)?

lemma indexed_foldl: "indexed g \<Longrightarrow> indexed (foldl (bucket_step geom) g els)"
  by (induction els arbitrary: g) (simp_all add: indexed_bucket_step)

lemma indexed_empty: "indexed empty_array"
  by (simp add: indexed_def empty_array_def)

lemma buildGrid_eq:
  "buildGrid geom els =
     map (\<lambda>i. sort_key (\<lambda>el. left_r (geom el)) (bucket_of geom els (int i)))
       (filter (\<lambda>i. \<exists>e \<in> set els. band geom e = int i) [0..<grid_len geom els])"
proof -
  have p: "props (foldl (bucket_step geom) empty_array els) k =
      (if \<exists>e \<in> set els. band geom e = k then Some (bucket_of geom els k) else None)" for k
    by (simp add: props_foldl_bucket_step empty_array_def)
  have ne: "(\<exists>e \<in> set els. band geom e = k) \<Longrightarrow> bucket_of geom els k \<noteq> []" for k
    by (auto simp: bucket_of_def filter_empty_conv)
  have "array_filter_rows (foldl (bucket_step geom) empty_array els) =
      map (\<lambda>i. bucket_of geom els (int i))
        (filter (\<lambda>i. \<exists>e \<in> set els. band geom e = int i) [0..<grid_len geom els])"
    unfolding array_filter_rows_def List.map_filter_def grid_len_def p
    by (induction "[0..<len (foldl (bucket_step geom) empty_array els)]")
       (auto simp: filter_map comp_def ne intro!: filter_cong map_cong)
  then show ?thesis
    by (simp add: buildGrid_def comp_def)
qed

lemma band_lt_grid_len:
  assumes "e \<in> set els" "array_index (band geom e)"
  shows "nat (band geom e) < grid_len geom els"
proof -
  have "indexed (foldl (bucket_step geom) empty_array els)"
    by (rule indexed_foldl [OF indexed_empty])
  moreover have "props (foldl (bucket_step geom) empty_array els) (band geom e) \<noteq> None"
    using assms(1) by (auto simp: props_foldl_bucket_step)
  ultimately show ?thesis
    using assms(2) by (auto simp: indexed_def grid_len_def)
qed

lemma sort_key_Nil_iff: "(sort_key f xs = []) = (xs = [])"
  by (metis length_sort length_0_conv)

lemma band_negative: "top_r (geom e) < 0 \<Longrightarrow> band geom e < 0"
  by (simp add: band_def floor_less_iff)

lemma in_row_band:
  assumes "row \<in> set (buildGrid geom els)" "e \<in> set row"
  shows "\<exists>i. band geom e = int i \<and> e \<in> set els
      \<and> row = sort_key (\<lambda>el. left_r (geom el)) (bucket_of geom els (int i))"
  using assms unfolding buildGrid_eq by (auto simp: bucket_of_def)

lemma geom4_grid: "buildGrid geom4 [2, 3, 4, 5, 6] = [[3, 2], [4]]"
  by (simp add: buildGrid_def bucket_step_def band_def geom4_def empty_array_def array_set_def
      array_index_def bucket_push_def array_filter_rows_def List.map_filter_def Let_def upt_rec)

text \<open>
  C8 fails on the code. The targets 5 and 6 of the example surface have the same band
  index, \<open>floor(-25/80) = -1\<close>; the loop pushes both into the bucket at the key
  \<open>-1\<close>, which is no array index, so the filter never visits it: the built grid has
  the rows of the other targets only and no row holds 5 and 6.
\<close>

theorem buildGrid_negative_band_dropped:
  "band geom4 5 = band geom4 6
   \<and> props (foldl (bucket_step geom4) empty_array [2, 3, 4, 5, 6]) (- 1) = Some [5, 6]
   \<and> buildGrid geom4 [2, 3, 4, 5, 6] = [[3, 2], [4]]
   \<and> \<not> (\<exists>row \<in> set (buildGrid geom4 [2, 3, 4, 5, 6]). 5 \<in> set row \<and> 6 \<in> set row)"
proof -
  have b: "band geom4 5 = band geom4 6" "band geom4 5 = - 1"
    by (simp_all add: band_def geom4_def)
  have p: "props (foldl (bucket_step geom4) empty_array [2, 3, 4, 5, 6]) (- 1) = Some [5, 6]"
    by (simp add: bucket_step_def band_def geom4_def empty_array_def array_set_def
        array_index_def bucket_push_def Let_def)
  show ?thesis
    using b p by (simp add: geom4_grid)
qed

text \<open>
  What holds of the grid: two candidates whose band indices are array indices are in
  one row exactly when the band indices are equal; each row is ordered by left
  coordinate ascending; no row is empty; the rows appear in the order of their bands.
\<close>

lemma buildGrid_rows_in_range:
  "(\<forall>a \<in> set els. \<forall>b \<in> set els.
      array_index (band geom a) \<longrightarrow> array_index (band geom b) \<longrightarrow>
      ((\<exists>row \<in> set (buildGrid geom els). a \<in> set row \<and> b \<in> set row)
        \<longleftrightarrow> band geom a = band geom b))
   \<and> (\<forall>row \<in> set (buildGrid geom els). sorted (map (\<lambda>e. left_r (geom e)) row))
   \<and> [] \<notin> set (buildGrid geom els)
   \<and> sorted_wrt (<) (map (\<lambda>row. band geom (hd row)) (buildGrid geom els))"
proof (intro conjI ballI impI)
  fix a b
  assume a: "a \<in> set els" and b: "b \<in> set els"
    and ta: "array_index (band geom a)" and tb: "array_index (band geom b)"
  show "(\<exists>row \<in> set (buildGrid geom els). a \<in> set row \<and> b \<in> set row)
      \<longleftrightarrow> band geom a = band geom b"
  proof
    assume "\<exists>row \<in> set (buildGrid geom els). a \<in> set row \<and> b \<in> set row"
    then obtain row where r: "row \<in> set (buildGrid geom els)" "a \<in> set row" "b \<in> set row"
      by blast
    from in_row_band [OF r(1) r(2)] obtain i where
      i: "band geom a = int i" "row = sort_key (\<lambda>el. left_r (geom el)) (bucket_of geom els (int i))"
      by blast
    from r(3) i(2) have "band geom b = int i"
      by (simp add: bucket_of_def)
    with i(1) show "band geom a = band geom b" by simp
  next
    assume eq: "band geom a = band geom b"
    define i where "i = nat (band geom a)"
    have ia: "band geom a = int i"
      using ta by (simp add: i_def array_index_def)
    have "i < grid_len geom els"
      unfolding i_def by (rule band_lt_grid_len [OF a ta])
    then have "sort_key (\<lambda>el. left_r (geom el)) (bucket_of geom els (int i))
        \<in> set (buildGrid geom els)"
      unfolding buildGrid_eq using a ia by auto
    moreover have "a \<in> set (bucket_of geom els (int i))" "b \<in> set (bucket_of geom els (int i))"
      using a b ia eq by (simp_all add: bucket_of_def)
    ultimately show "\<exists>row \<in> set (buildGrid geom els). a \<in> set row \<and> b \<in> set row"
      by (intro bexI [where x = "sort_key (\<lambda>el. left_r (geom el)) (bucket_of geom els (int i))"])
        simp_all
  qed
next
  fix row
  assume "row \<in> set (buildGrid geom els)"
  then show "sorted (map (\<lambda>e. left_r (geom e)) row)"
    unfolding buildGrid_eq by auto
next
  have "row \<noteq> []" if "row \<in> set (buildGrid geom els)" for row
  proof -
    from that obtain i e where "e \<in> set els" "band geom e = int i"
      "row = sort_key (\<lambda>el. left_r (geom el)) (bucket_of geom els (int i))"
      unfolding buildGrid_eq by auto
    then have "e \<in> set row"
      by (simp add: bucket_of_def)
    then show ?thesis by auto
  qed
  then show "[] \<notin> set (buildGrid geom els)"
    by blast
next
  have h: "band geom (hd (sort_key (\<lambda>el. left_r (geom el)) (bucket_of geom els (int i)))) = int i"
    if "\<exists>e \<in> set els. band geom e = int i" for i
  proof -
    let ?row = "sort_key (\<lambda>el. left_r (geom el)) (bucket_of geom els (int i))"
    from that have "?row \<noteq> []"
      by (auto simp: sort_key_Nil_iff bucket_of_def filter_empty_conv)
    then have "hd ?row \<in> set ?row" by (rule hd_in_set)
    then show ?thesis by (simp add: bucket_of_def)
  qed
  have "map (\<lambda>row. band geom (hd row)) (buildGrid geom els)
      = map int (filter (\<lambda>i. \<exists>e \<in> set els. band geom e = int i) [0..<grid_len geom els])"
    unfolding buildGrid_eq by (simp add: comp_def h cong: map_cong)
  moreover have "sorted_wrt (<) (map int (filter P [0..<n]))" for P n
    by (simp add: sorted_wrt_map sorted_wrt_filter [OF sorted_wrt_upt])
  ultimately show "sorted_wrt (<) (map (\<lambda>row. band geom (hd row)) (buildGrid geom els))"
    by simp
qed

text \<open>
  Beyond the range of array indices the bucket is a plain property too: the targets 7
  and 8 at band index \<open>2^32 - 1\<close> are in no row.
\<close>

lemma buildGrid_beyond_index_range:
  "band geom_far 7 = 4294967295 \<and> band geom_far 8 = 4294967295
   \<and> buildGrid geom_far [3, 7, 8] = [[3]]"
  by (simp add: buildGrid_def bucket_step_def band_def geom_far_def empty_array_def array_set_def
      array_index_def bucket_push_def array_filter_rows_def List.map_filter_def Let_def upt_rec)

section \<open>Targets above the viewport origin\<close>

text \<open>
  C10. A candidate target whose top coordinate is negative has a negative band index
  and appears in no row of the built grid.
\<close>

theorem negative_top_excluded:
  assumes "top_r (geom e) < 0"
  shows "band geom e < 0 \<and> (\<forall>row \<in> set (buildGrid geom els). e \<notin> set row)"
proof (intro conjI ballI notI)
  show "band geom e < 0"
    by (rule band_negative [of geom e, OF assms])
next
  fix row
  assume "row \<in> set (buildGrid geom els)" "e \<in> set row"
  from in_row_band [OF this] obtain i where "band geom e = int i"
    by blast
  with band_negative [of geom e, OF assms] show False by simp
qed

theorem negative_top_excluded_witness:
  "top_r (geom4 5) < 0 \<and> 5 \<in> set [2, 3, 4, 5, 6 :: nat] \<and> band geom4 5 < 0
   \<and> \<not> (\<exists>row \<in> set (buildGrid geom4 [2, 3, 4, 5, 6]). 5 \<in> set row)"
proof -
  have t: "top_r (geom4 5) < 0"
    by (simp add: geom4_def)
  show ?thesis
    using negative_top_excluded [of geom4 5 "[2, 3, 4, 5, 6]", OF t] t by simp
qed

section \<open>Back in player mode\<close>

lemma back_player_mode_with_close:
  "call_method (Player w) ''close'' = Some f \<Longrightarrow> isPlayerActive s \<Longrightarrow> back_js w d s = Inr (f s)"
  by (simp add: back_js_def)

text \<open>
  C1 fails on the code. \<open>back\<close> calls \<open>window.Player.close()\<close>; the player
  object of the repository has the member \<open>closePlayer\<close> and no member \<open>close\<close>.
  So in every state in player mode, with \<open>window.Player\<close> undefined or that object,
  \<open>back\<close> raises a \<open>TypeError\<close> and leaves the state as it was, whatever the
  history and the section are.
\<close>

theorem back_player_mode_raises:
  assumes "of_repository Player_members (Player w)" and "isPlayerActive s"
  shows "''close'' \<notin> set Player_members \<and> ''closePlayer'' \<in> set Player_members
       \<and> back_js w d s = Inl (TypeError, s)"
proof -
  have m: "''close'' \<notin> set Player_members"
    by (simp add: Player_members_def)
  have "call_method (Player w) ''close'' = None"
    using assms(1) m by (auto simp: of_repository_def call_method_def split: option.splits)
  with assms(2) m show ?thesis
    by (simp add: back_js_def) (simp add: Player_members_def)
qed

theorem back_player_mode_raises_witness:
  "of_repository Player_members (Player player_window)
   \<and> isPlayerActive (nav_full\<lparr>isPlayerActive := True\<rparr>)
   \<and> back_js player_window plain_surface (nav_full\<lparr>isPlayerActive := True\<rparr>)
       = Inl (TypeError, nav_full\<lparr>isPlayerActive := True\<rparr>)"
proof -
  have r: "of_repository Player_members (Player player_window)"
    by (auto simp: of_repository_def player_window_def Player_members_def split: if_splits)
  have a: "isPlayerActive (nav_full\<lparr>isPlayerActive := True\<rparr>)"
    by simp
  show ?thesis
    using back_player_mode_raises [OF r a, of plain_surface] r by simp
qed

section \<open>Navigation that raises\<close>

text \<open>
  C2 fails on the code. With the focused target absent from a grid of two rows and a
  stored row beyond the grid, \<open>navigate('right')\<close> reads \<open>length\<close> of an
  undefined row and \<open>navigate('up')\<close> does so after moving the stored row; and
  \<open>back\<close> outside the home section calls \<open>window.App.showSection\<close>, which the
  repository does not define.
\<close>

theorem navigation_raises_on_stale_cursor:
  "navigate plain_surface Right (nav0\<lparr>currentRow := 2\<rparr>) = Inl (TypeError, nav0\<lparr>currentRow := 2\<rparr>)
   \<and> navigate plain_surface Up (nav0\<lparr>currentRow := 3\<rparr>) = Inl (TypeError, nav0\<lparr>currentRow := 2\<rparr>)
   \<and> back_js bare_window plain_surface (nav0\<lparr>currentSection := ''favorites''\<rparr>)
       = Inl (TypeError, nav0\<lparr>currentSection := ''favorites''\<rparr>)"
  by (simp add: navigate_def nav0_def move_def clamp_to_def at_index_def indexOf_def Let_def
      back_js_def bare_window_def call_method_def)

section \<open>Right from the last column\<close>

lemma locate_cursor_only:
  "locate g el r s = s\<lparr>currentRow := currentRow (locate g el r s),
                        currentCol := currentCol (locate g el r s)\<rparr>"
  by (induction g arbitrary: r) simp_all

lemma located:
  assumes "cursor s = (r, c)"
  shows "locate (grid s) (focusedElement s) 0 s = s\<lparr>currentRow := r, currentCol := c\<rparr>"
  using assms locate_cursor_only [of "grid s" "focusedElement s" 0 s]
  by (simp add: cursor_def Let_def)

lemma cur_nav: "cursor (nav0\<lparr>focusedElement := Some 2\<rparr>) = (int 0, int 1)"
  by (simp add: cursor_def nav0_def indexOf_def Let_def)

lemma cur_nav2: "cursor (nav0\<lparr>focusedElement := Some 4\<rparr>) = (int 1, int 0)"
  by (simp add: cursor_def nav0_def indexOf_def Let_def)

text \<open>
  C5. In every grid without an empty row and at every cursor position in the last
  column of a row, \<open>navigate('right')\<close> moves focus and cursor to column 0 of the
  next row when the row is not the final one, and on the final row it changes neither
  the focus nor the cursor.
\<close>

theorem navigate_right_last_column:
  assumes rows: "[] \<notin> set (grid s)"
    and cur: "cursor s = (int r, int c)"
    and r: "r < length (grid s)"
    and c: "Suc c = length (grid s ! r)"
  shows "(Suc r < length (grid s) \<longrightarrow>
           navigate d Right s =
             Inr (s\<lparr>currentRow := int r + 1, currentCol := 0,
                    focusedElement := Some (grid s ! Suc r ! 0)\<rparr>))
       \<and> (Suc r = length (grid s) \<longrightarrow>
           navigate d Right s = Inr (s\<lparr>currentRow := int r, currentCol := int c\<rparr>))"
proof -
  from r have ne: "grid s \<noteq> []" by auto
  have row: "at_index (grid s) (int r) = Some (grid s ! r)"
    using r by (simp add: at_index_def)
  have col: "\<not> int c < int (length (grid s ! r)) - 1"
    using c by simp
  show ?thesis
  proof (intro conjI impI)
    assume nr: "Suc r < length (grid s)"
    then have "grid s ! Suc r \<in> set (grid s)" by simp
    with rows have "grid s ! Suc r \<noteq> []" by metis
    then have nx: "at_index (grid s ! Suc r) 0 = Some (grid s ! Suc r ! 0)"
      by (simp add: at_index_def)
    have nrow: "at_index (grid s) (int r + 1) = Some (grid s ! Suc r)"
      using nr by (simp add: at_index_def nat_add_distrib)
    from nr have lt: "int r < int (length (grid s)) - 1" by simp
    show "navigate d Right s =
        Inr (s\<lparr>currentRow := int r + 1, currentCol := 0,
               focusedElement := Some (grid s ! Suc r ! 0)\<rparr>)"
      using ne col lt
      by (simp add: navigate_def Let_def located [OF cur] move_def row step_to_def nrow nx
          setFocus_def)
  next
    assume "Suc r = length (grid s)"
    then have "\<not> int r < int (length (grid s)) - 1" by simp
    then show "navigate d Right s = Inr (s\<lparr>currentRow := int r, currentCol := int c\<rparr>)"
      using ne col
      by (simp add: navigate_def Let_def located [OF cur] move_def row)
  qed
qed

theorem navigate_right_last_column_witness:
  "[] \<notin> set (grid (nav0\<lparr>focusedElement := Some 2\<rparr>))
   \<and> cursor (nav0\<lparr>focusedElement := Some 2\<rparr>) = (int 0, int 1)
   \<and> navigate plain_surface Right (nav0\<lparr>focusedElement := Some 2\<rparr>)
       = Inr (nav0\<lparr>focusedElement := Some 4, currentRow := 1, currentCol := 0\<rparr>)
   \<and> cursor (nav0\<lparr>focusedElement := Some 4\<rparr>) = (int 1, int 0)
   \<and> navigate plain_surface Right (nav0\<lparr>focusedElement := Some 4\<rparr>)
       = Inr (nav0\<lparr>focusedElement := Some 4, currentRow := 1, currentCol := 0\<rparr>)"
proof -
  have g: "[] \<notin> set (grid (nav0\<lparr>focusedElement := Some 2\<rparr>))"
    "[] \<notin> set (grid (nav0\<lparr>focusedElement := Some 4\<rparr>))"
    by (simp_all add: nav0_def)
  have r1: "0 < length (grid (nav0\<lparr>focusedElement := Some 2\<rparr>))"
    and c1: "Suc 1 = length (grid (nav0\<lparr>focusedElement := Some 2\<rparr>) ! 0)"
    and r2: "1 < length (grid (nav0\<lparr>focusedElement := Some 4\<rparr>))"
    and c2: "Suc 0 = length (grid (nav0\<lparr>focusedElement := Some 4\<rparr>) ! 1)"
    by (simp_all add: nav0_def)
  show ?thesis
    using navigate_right_last_column [OF g(1) cur_nav r1 c1, of plain_surface]
      navigate_right_last_column [OF g(2) cur_nav2 r2 c2, of plain_surface] cur_nav cur_nav2
    by (simp add: nav0_def)
qed

section \<open>The bound of the focus history\<close>

lemma length_select:
  "quiet_surface d \<Longrightarrow> length (focusHistory s) \<le> 20 \<Longrightarrow> length (focusHistory (select d s)) \<le> 20"
  by (auto simp: select_def Let_def quiet_surface_def keeps_history_def split: option.splits)

lemma length_back:
  "quiet_globals w \<Longrightarrow> length (focusHistory s) \<le> 20
   \<Longrightarrow> length (focusHistory (state_of (back_js w d s))) \<le> 20"
  by (auto simp: back_js_def Let_def quiet_globals_def keeps_history_def state_of_def setFocus_def
      split: option.splits)

lemma length_run_ops:
  "quiet_globals w \<Longrightarrow> \<forall>(d, op) \<in> set ops. quiet_surface d \<Longrightarrow> length (focusHistory s) \<le> 20
   \<Longrightarrow> length (focusHistory (run_ops w ops s)) \<le> 20"
  by (induction w ops s rule: run_ops.induct) (auto simp: length_select length_back)

lemma select_evicts:
  assumes "quiet_surface d" "focusedElement s = Some el" "length (focusHistory s) = 20"
  shows "focusHistory (select d s) =
      tl (focusHistory s) @ [(focusedElement (onClick d el s), currentSection (onClick d el s))]"
proof -
  from assms(1) have k: "focusHistory (onClick d el s) = focusHistory s"
    by (simp add: quiet_surface_def keeps_history_def)
  from assms(3) have "focusHistory s \<noteq> []" by auto
  with assms(2,3) show ?thesis
    by (simp add: select_def Let_def k)
qed

text \<open>
  C6. After any sequence of \<open>select\<close> and \<open>back\<close> calls, from a history of at
  most 20 entries and with no code outside the engine writing the history, the focus
  history has at most 20 entries; and a \<open>select\<close> on a history of 20 entries drops
  the oldest entry and keeps the other 19 in their order before the new one.
\<close>

theorem focus_history_bounded:
  fixes w :: "'e globals"
  assumes "quiet_globals w"
    and "\<forall>(d, op) \<in> set ops. quiet_surface d"
    and "length (focusHistory s) \<le> 20"
  shows "length (focusHistory (run_ops w ops s)) \<le> 20
       \<and> (\<forall>(d :: 'e surface) el t. quiet_surface d \<longrightarrow> focusedElement t = Some el
             \<longrightarrow> length (focusHistory t) = 20
             \<longrightarrow> focusHistory (select d t)
                 = tl (focusHistory t)
                   @ [(focusedElement (onClick d el t), currentSection (onClick d el t))])"
proof (intro conjI allI impI)
  show "length (focusHistory (run_ops w ops s)) \<le> 20"
    by (rule length_run_ops [OF assms])
next
  fix d :: "'e surface" and el and t :: "'e navigation"
  assume "quiet_surface d" "focusedElement t = Some el" "length (focusHistory t) = 20"
  then show "focusHistory (select d t)
      = tl (focusHistory t) @ [(focusedElement (onClick d el t), currentSection (onClick d el t))]"
    by (rule select_evicts)
qed

theorem focus_history_bounded_witness:
  "quiet_globals bare_window
   \<and> quiet_surface plain_surface
   \<and> length (focusHistory nav_full) \<le> 20
   \<and> length (focusHistory (run_ops bare_window
         [(plain_surface, Select), (plain_surface, Back), (plain_surface, Select)] nav_full)) \<le> 20
   \<and> focusedElement nav_full = Some 3
   \<and> length (focusHistory nav_full) = 20
   \<and> focusHistory (select plain_surface nav_full)
       = replicate 19 (Some 2, ''home'') @ [(Some 3, ''home'')]"
proof -
  have q: "quiet_globals bare_window"
    by (simp add: quiet_globals_def bare_window_def call_method_def)
  have p: "quiet_surface plain_surface"
    by (simp add: quiet_surface_def keeps_history_def plain_surface_def)
  then have ps: "\<forall>(d, op) \<in> set [(plain_surface, Select), (plain_surface, Back),
      (plain_surface, Select)]. quiet_surface d"
    by simp
  have l: "length (focusHistory nav_full) \<le> 20" "length (focusHistory nav_full) = 20"
    by (simp_all add: nav_full_def)
  have f: "focusedElement nav_full = Some 3"
    by (simp add: nav_full_def)
  have c: "onClick plain_surface 3 nav_full = nav_full"
    by (simp add: plain_surface_def)
  have t: "tl (focusHistory nav_full) = replicate 19 (Some 2, ''home'')"
    by (simp add: nav_full_def nav0_def numeral_eq_Suc)
  have s: "currentSection nav_full = ''home''"
    by (simp add: nav_full_def nav0_def)
  have "focusHistory (select plain_surface nav_full)
      = tl (focusHistory nav_full)
        @ [(focusedElement (onClick plain_surface 3 nav_full),
            currentSection (onClick plain_surface 3 nav_full))]"
    by (rule focus_history_bounded [OF q ps l(1), THEN conjunct2, rule_format, OF p f l(2)])
  then have e: "focusHistory (select plain_surface nav_full)
      = replicate 19 (Some 2, ''home'') @ [(Some 3, ''home'')]"
    by (simp only: c t f s)
  have b: "length (focusHistory (run_ops bare_window
      [(plain_surface, Select), (plain_surface, Back), (plain_surface, Select)] nav_full)) \<le> 20"
    by (rule focus_history_bounded [OF q ps l(1), THEN conjunct1])
  show ?thesis
    by (intro conjI q l p f e b)
qed

end
